theory Spec2Isabelle
  imports Main "HOL-Library.Sublist"
begin

section \<open>The deployment webhook server (scripts/webhook-server.py)\<close>

text \<open>
  The script is an HTTP handler class with two methods, \<open>do_POST\<close> and \<open>deploy\<close>, over
  four module constants read from the environment. Everything the handler does apart from
  computing values is an effect on the outside world: it logs, writes the response, asks
  the file system whether the compose file exists and runs \<open>docker compose\<close>. The model
  makes these effects explicit as a trace of events, in the order the code performs them,
  and takes the answers of the outside world (the file system, the subprocesses, pathlib)
  from an explicit environment.

  Python strings are modelled as \<open>string\<close>. The response bodies are the \<open>str\<close> values
  before \<open>.encode()\<close>.
\<close>

subsection \<open>Configuration (lines 15-18)\<close>

record config =
  PORT :: int
  SECRET :: string
  COMPOSE_DIR :: string
  COMPOSE_FILE :: string

text \<open>The values the module constants take when no environment variable is set.\<close>

definition default_config :: config where
  "default_config =
     \<lparr>PORT = 9000, SECRET = '''', COMPOSE_DIR = ''/opt/media-server'',
      COMPOSE_FILE = ''docker-compose.prod.yml''\<rparr>"

subsection \<open>Requests\<close>

text \<open>
  What a handler instance holds of the request: the parsed header lines in order, the
  request path, the unread body and the address of the peer.
\<close>

record request =
  headers :: "(string \<times> string) list"
  path :: string
  body :: string
  client_address :: "string \<times> nat"

text \<open>
  \<open>self.headers.get(name, failobj)\<close>: the value of the first header whose name equals
  \<open>name\<close> up to case, \<open>failobj\<close> when there is none. Header names are printable ASCII,
  so \<open>str.lower\<close> acts on the letters A-Z only.
\<close>

definition lower_char :: "char \<Rightarrow> char" where
  "lower_char c =
     (let n = (of_char c :: nat) in if 65 \<le> n \<and> n \<le> 90 then char_of (n + 32) else c)"

definition lower :: "string \<Rightarrow> string" where
  "lower s = map lower_char s"

fun headers_get :: "(string \<times> string) list \<Rightarrow> string \<Rightarrow> string \<Rightarrow> string" where
  "headers_get [] name failobj = failobj"
| "headers_get ((k, v) # hs) name failobj =
     (if lower k = lower name then v else headers_get hs name failobj)"

subsection \<open>Subprocesses, exceptions and the environment\<close>

text \<open>The keyword arguments and the argument vector of one \<open>subprocess.run\<close> call.\<close>

record run_args =
  args :: "string list"
  capture_output :: bool
  text_mode :: bool
  cwd :: string

text \<open>
  The \<open>CompletedProcess\<close> that \<open>subprocess.run\<close> returns. With \<open>capture_output\<close> and
  \<open>text\<close> set, \<open>stdout\<close> and \<open>stderr\<close> are strings; \<open>returncode\<close> is an integer.
\<close>

record completed_process =
  returncode :: int
  stdout :: string
  stderr :: string

text \<open>
  The exceptions that reach the \<open>except Exception\<close> clause of \<open>do_POST\<close>: the
  \<open>FileNotFoundError\<close> that \<open>deploy\<close> raises itself, and whatever the library calls
  raise (no \<open>docker\<close> executable, a missing working directory, a permission error).
  Each carries the text that \<open>str(e)\<close> gives.
\<close>

datatype exn = FileNotFoundError string | LibraryError string

fun str_exn :: "exn \<Rightarrow> string" where
  "str_exn (FileNotFoundError m) = m"
| "str_exn (LibraryError m) = m"

text \<open>
  The outside world as the handler sees it:
  \<^item> \<open>path_join d f\<close> is \<open>str(Path(d) / f)\<close>; pathlib is not part of the repository, so
    the joining function is a parameter;
  \<^item> \<open>path_exists p\<close> is the outcome of \<open>Path.exists\<close> on the path whose text is \<open>p\<close>:
    a boolean, or an exception;
  \<^item> \<open>subprocess_run a\<close> is the outcome of \<open>subprocess.run\<close> called with \<open>a\<close>: a
    completed process (a non-zero exit code does not raise, \<open>check\<close> is not set), or an
    exception.
  One request calls \<open>exists\<close> at most once and each of the two commands at most once, and
  the two argument vectors differ, so answers indexed by the arguments lose nothing.
\<close>

record os =
  path_join :: "string \<Rightarrow> string \<Rightarrow> string"
  path_exists :: "string \<Rightarrow> exn + bool"
  subprocess_run :: "run_args \<Rightarrow> exn + completed_process"

subsection \<open>Effects\<close>

datatype level = INFO | WARNING | ERROR

text \<open>
  One event for each effect of the handler: a line handed to the logger, the three calls
  that write the response (\<open>send_response\<close>, \<open>end_headers\<close>, \<open>wfile.write\<close>), the
  existence test on a path and the start of a subprocess.
\<close>

datatype event =
    Log level string
  | Send_response nat
  | End_headers
  | Write string
  | Exists string
  | Run run_args

subsection \<open>\<open>WebhookHandler.deploy\<close> (lines 64-92)\<close>

definition pull_args :: "config \<Rightarrow> string \<Rightarrow> run_args" where
  "pull_args cfg compose_path =
     \<lparr>args = [''docker'', ''compose'', ''-f'', compose_path, ''pull''],
      capture_output = True, text_mode = True, cwd = COMPOSE_DIR cfg\<rparr>"

definition up_args :: "config \<Rightarrow> string \<Rightarrow> run_args" where
  "up_args cfg compose_path =
     \<lparr>args = [''docker'', ''compose'', ''-f'', compose_path, ''up'', ''-d'',
              ''--remove-orphans''],
      capture_output = True, text_mode = True, cwd = COMPOSE_DIR cfg\<rparr>"

text \<open>Line 66: the text of \<open>Path(COMPOSE_DIR) / COMPOSE_FILE\<close>.\<close>

definition compose_path :: "config \<Rightarrow> os \<Rightarrow> string" where
  "compose_path cfg w = path_join w (COMPOSE_DIR cfg) (COMPOSE_FILE cfg)"

text \<open>
  \<open>deploy\<close> returns the events it caused together with its outcome: \<open>Inr\<close> the completed
  process it returns, \<open>Inl\<close> the exception that leaves it.
\<close>

definition deploy :: "config \<Rightarrow> os \<Rightarrow> event list \<times> (exn + completed_process)" where
  "deploy cfg w =
     (let p = compose_path cfg w in
      case path_exists w p of
        Inl e \<Rightarrow> ([Exists p], Inl e)
      | Inr False \<Rightarrow>
          ([Exists p], Inl (FileNotFoundError (''Compose file not found: '' @ p)))
      | Inr True \<Rightarrow>
          (case subprocess_run w (pull_args cfg p) of
             Inl e \<Rightarrow>
               ([Exists p, Log INFO ''Pulling latest image...'', Run (pull_args cfg p)],
                Inl e)
           | Inr pull_result \<Rightarrow>
               if returncode pull_result \<noteq> 0 then
                 ([Exists p, Log INFO ''Pulling latest image...'', Run (pull_args cfg p)],
                  Inr pull_result)
               else
                 (case subprocess_run w (up_args cfg p) of
                    Inl e \<Rightarrow>
                      ([Exists p, Log INFO ''Pulling latest image...'',
                        Run (pull_args cfg p), Log INFO ''Restarting container...'',
                        Run (up_args cfg p)], Inl e)
                  | Inr up_result \<Rightarrow>
                      ([Exists p, Log INFO ''Pulling latest image...'',
                        Run (pull_args cfg p), Log INFO ''Restarting container...'',
                        Run (up_args cfg p)], Inr up_result))))"

subsection \<open>\<open>WebhookHandler.do_POST\<close> (lines 29-62)\<close>

text \<open>
  The test \<open>if SECRET\<close> is Python truthiness of a string: true when it is not empty.
  \<open>logger.exception\<close> logs at level ERROR (the traceback it appends is left out).
\<close>

definition authorized :: "config \<Rightarrow> request \<Rightarrow> bool" where
  "authorized cfg req =
     (\<not> (SECRET cfg \<noteq> [] \<and>
         headers_get (headers req) ''Authorization'' '''' \<noteq> ''Bearer '' @ SECRET cfg))"

definition do_POST :: "config \<Rightarrow> os \<Rightarrow> request \<Rightarrow> event list" where
  "do_POST cfg w req =
     (if SECRET cfg \<noteq> [] \<and>
         headers_get (headers req) ''Authorization'' '''' \<noteq> ''Bearer '' @ SECRET cfg
      then
        [Log WARNING (''Unauthorized request from '' @ fst (client_address req)),
         Send_response 401, End_headers, Write ''Unauthorized'']
      else
        Log INFO (''Received deployment webhook from '' @ fst (client_address req)) #
        (case deploy cfg w of
           (tr, Inr result) \<Rightarrow>
             if returncode result = 0 then
               tr @ [Send_response 200, End_headers, Write ''Deployment successful'',
                     Log INFO ''Deployment completed successfully'']
             else
               tr @ [Send_response 500, End_headers,
                     Write (''Deployment failed: '' @ stderr result),
                     Log ERROR (''Deployment failed: '' @ stderr result)]
         | (tr, Inl e) \<Rightarrow>
             tr @ [Send_response 500, End_headers, Write (''Error: '' @ str_exn e),
                   Log ERROR ''Deployment error'']))"

subsection \<open>What a trace shows\<close>

text \<open>The status codes sent, the bytes written to the client, the subprocesses started and
  the calls that reach outside the process (existence tests and subprocesses).\<close>

fun statuses :: "event list \<Rightarrow> nat list" where
  "statuses [] = []"
| "statuses (Send_response n # es) = n # statuses es"
| "statuses (e # es) = statuses es"

fun written :: "event list \<Rightarrow> string" where
  "written [] = []"
| "written (Write s # es) = s @ written es"
| "written (e # es) = written es"

fun runs :: "event list \<Rightarrow> run_args list" where
  "runs [] = []"
| "runs (Run a # es) = a # runs es"
| "runs (e # es) = runs es"

fun external :: "event list \<Rightarrow> event list" where
  "external [] = []"
| "external (Exists p # es) = Exists p # external es"
| "external (Run a # es) = Run a # external es"
| "external (e # es) = external es"

subsection \<open>Concrete configurations, requests and environments for the instances\<close>

text \<open>
  These are not part of the script. They give the closed instances below something to
  run on: an outside world that joins a directory and a file name with a slash (what
  pathlib does for a directory without a trailing slash and a plain file name), answers
  the existence test with \<open>ex\<close>, and answers the command ending in \<open>pull\<close> with \<open>pull\<close>
  and any other command with \<open>up\<close>; a process that exits with a given code and stderr;
  and a POST request with given headers.
\<close>

definition scripted_os :: "(exn + bool) \<Rightarrow> (exn + completed_process) \<Rightarrow> (exn + completed_process) \<Rightarrow> os" where
  "scripted_os ex pull up =
     \<lparr>path_join = (\<lambda>d f. d @ ''/'' @ f), path_exists = (\<lambda>p. ex),
      subprocess_run = (\<lambda>a. if last (args a) = ''pull'' then pull else up)\<rparr>"

definition exit_with :: "int \<Rightarrow> string \<Rightarrow> exn + completed_process" where
  "exit_with n err = Inr \<lparr>returncode = n, stdout = '''', stderr = err\<rparr>"

definition post_with :: "(string \<times> string) list \<Rightarrow> request" where
  "post_with hs = \<lparr>headers = hs, path = ''/'', body = '''', client_address = (''10.0.0.1'', 5555)\<rparr>"

lemmas lower_eval = lower_def lower_char_def char_of_def bit_Suc_0_iff
lemmas fixture_eval = scripted_os_def exit_with_def post_with_def default_config_def
  compose_path_def pull_args_def up_args_def

subsection \<open>\<open>deploy\<close> and \<open>do_POST\<close> by cases\<close>

lemma pull_up_differ: "pull_args cfg p \<noteq> up_args cfg p"
  by (simp add: pull_args_def up_args_def)

lemma deploy_exists_raises:
  "path_exists w (compose_path cfg w) = Inl e \<Longrightarrow>
   deploy cfg w = ([Exists (compose_path cfg w)], Inl e)"
  by (simp add: deploy_def Let_def)

lemma deploy_missing:
  "path_exists w (compose_path cfg w) = Inr False \<Longrightarrow>
   deploy cfg w =
     ([Exists (compose_path cfg w)],
      Inl (FileNotFoundError (''Compose file not found: '' @ compose_path cfg w)))"
  by (simp add: deploy_def Let_def)

lemma deploy_pull_raises:
  "path_exists w (compose_path cfg w) = Inr True \<Longrightarrow>
   subprocess_run w (pull_args cfg (compose_path cfg w)) = Inl e \<Longrightarrow>
   deploy cfg w =
     ([Exists (compose_path cfg w), Log INFO ''Pulling latest image...'',
       Run (pull_args cfg (compose_path cfg w))], Inl e)"
  by (simp add: deploy_def Let_def)

lemma deploy_pull_fails:
  "path_exists w (compose_path cfg w) = Inr True \<Longrightarrow>
   subprocess_run w (pull_args cfg (compose_path cfg w)) = Inr r \<Longrightarrow>
   returncode r \<noteq> 0 \<Longrightarrow>
   deploy cfg w =
     ([Exists (compose_path cfg w), Log INFO ''Pulling latest image...'',
       Run (pull_args cfg (compose_path cfg w))], Inr r)"
  by (simp add: deploy_def Let_def)

lemma deploy_up_raises:
  "path_exists w (compose_path cfg w) = Inr True \<Longrightarrow>
   subprocess_run w (pull_args cfg (compose_path cfg w)) = Inr r \<Longrightarrow>
   returncode r = 0 \<Longrightarrow>
   subprocess_run w (up_args cfg (compose_path cfg w)) = Inl e \<Longrightarrow>
   deploy cfg w =
     ([Exists (compose_path cfg w), Log INFO ''Pulling latest image...'',
       Run (pull_args cfg (compose_path cfg w)), Log INFO ''Restarting container...'',
       Run (up_args cfg (compose_path cfg w))], Inl e)"
  by (simp add: deploy_def Let_def)

lemma deploy_up_returns:
  "path_exists w (compose_path cfg w) = Inr True \<Longrightarrow>
   subprocess_run w (pull_args cfg (compose_path cfg w)) = Inr r \<Longrightarrow>
   returncode r = 0 \<Longrightarrow>
   subprocess_run w (up_args cfg (compose_path cfg w)) = Inr r' \<Longrightarrow>
   deploy cfg w =
     ([Exists (compose_path cfg w), Log INFO ''Pulling latest image...'',
       Run (pull_args cfg (compose_path cfg w)), Log INFO ''Restarting container...'',
       Run (up_args cfg (compose_path cfg w))], Inr r')"
  by (simp add: deploy_def Let_def)

lemma statuses_append: "statuses (xs @ ys) = statuses xs @ statuses ys"
  by (induction xs rule: statuses.induct) simp_all

lemma written_append: "written (xs @ ys) = written xs @ written ys"
  by (induction xs rule: written.induct) simp_all

lemma runs_append: "runs (xs @ ys) = runs xs @ runs ys"
  by (induction xs rule: runs.induct) simp_all

lemma external_append: "external (xs @ ys) = external xs @ external ys"
  by (induction xs rule: external.induct) simp_all

text \<open>The handler's own events around the call of deploy touch nothing outside.\<close>

lemma do_POST_authorized:
  "authorized cfg req \<Longrightarrow>
   do_POST cfg w req =
     Log INFO (''Received deployment webhook from '' @ fst (client_address req)) #
     (case deploy cfg w of
        (tr, Inr result) \<Rightarrow>
          if returncode result = 0 then
            tr @ [Send_response 200, End_headers, Write ''Deployment successful'',
                  Log INFO ''Deployment completed successfully'']
          else
            tr @ [Send_response 500, End_headers,
                  Write (''Deployment failed: '' @ stderr result),
                  Log ERROR (''Deployment failed: '' @ stderr result)]
      | (tr, Inl e) \<Rightarrow>
          tr @ [Send_response 500, End_headers, Write (''Error: '' @ str_exn e),
                Log ERROR ''Deployment error''])"
  by (simp add: do_POST_def authorized_def)

lemma runs_do_POST_authorized:
  "authorized cfg req \<Longrightarrow> runs (do_POST cfg w req) = runs (fst (deploy cfg w))"
  by (cases "deploy cfg w")
     (simp add: do_POST_authorized runs_append split: sum.splits)

lemma external_do_POST_authorized:
  "authorized cfg req \<Longrightarrow> external (do_POST cfg w req) = external (fst (deploy cfg w))"
  by (cases "deploy cfg w")
     (simp add: do_POST_authorized external_append split: sum.splits)

lemma do_POST_unauthorized:
  "\<not> authorized cfg req \<Longrightarrow>
   do_POST cfg w req =
     [Log WARNING (''Unauthorized request from '' @ fst (client_address req)),
      Send_response 401, End_headers, Write ''Unauthorized'']"
  by (simp add: do_POST_def authorized_def)

lemma external_deploy_cases:
  "external (fst (deploy cfg w)) = [Exists (compose_path cfg w)] \<and>
     path_exists w (compose_path cfg w) \<noteq> Inr True
   \<or> external (fst (deploy cfg w)) =
       [Exists (compose_path cfg w), Run (pull_args cfg (compose_path cfg w))] \<and>
     path_exists w (compose_path cfg w) = Inr True \<and>
     (\<forall>r. subprocess_run w (pull_args cfg (compose_path cfg w)) = Inr r \<longrightarrow> returncode r \<noteq> 0)
   \<or> external (fst (deploy cfg w)) =
       [Exists (compose_path cfg w), Run (pull_args cfg (compose_path cfg w)),
        Run (up_args cfg (compose_path cfg w))] \<and>
     path_exists w (compose_path cfg w) = Inr True \<and>
     (\<exists>r. subprocess_run w (pull_args cfg (compose_path cfg w)) = Inr r \<and> returncode r = 0)"
  by (auto simp: deploy_def Let_def split: sum.splits bool.splits)

lemma runs_external: "runs (external tr) = runs tr"
  by (induction tr rule: external.induct) simp_all

lemma headers_get_absent:
  "\<forall>kv \<in> set hs. lower (fst kv) \<noteq> lower name \<Longrightarrow> headers_get hs name d = d"
  by (induction hs name d rule: headers_get.induct) simp_all

lemma absent_header_unauthorized:
  "SECRET cfg \<noteq> '''' \<Longrightarrow>
   \<forall>kv \<in> set (headers req). lower (fst kv) \<noteq> lower ''Authorization'' \<Longrightarrow>
   \<not> authorized cfg req"
  by (simp add: authorized_def headers_get_absent)

text \<open>
  Claim C1. When the secret is not empty and the value that \<open>headers.get\<close> returns for
  \<open>Authorization\<close> is not \<open>Bearer\<close>, a space and the secret, the handler logs a warning,
  sends status 401 with the body \<open>Unauthorized\<close> and does nothing else: no existence
  test (the first action of \<open>deploy\<close>) and no subprocess. An absent header is such a case
  by \<open>absent_header_unauthorized\<close>; the witness covers an absent header, another scheme
  and a wrong token.
\<close>

theorem unauthorized_gets_401:
  assumes "SECRET cfg \<noteq> ''''"
    and "headers_get (headers req) ''Authorization'' '''' \<noteq> ''Bearer '' @ SECRET cfg"
  shows "do_POST cfg w req =
           [Log WARNING (''Unauthorized request from '' @ fst (client_address req)),
            Send_response 401, End_headers, Write ''Unauthorized''] \<and>
         statuses (do_POST cfg w req) = [401] \<and>
         written (do_POST cfg w req) = ''Unauthorized'' \<and>
         runs (do_POST cfg w req) = [] \<and>
         external (do_POST cfg w req) = []"
  using assms by (simp add: do_POST_def)

theorem unauthorized_gets_401_witness:
  "SECRET (default_config\<lparr>SECRET := ''abc123''\<rparr>) \<noteq> '''' \<and>
   headers_get (headers (post_with [])) ''Authorization'' ''''
     \<noteq> ''Bearer '' @ SECRET (default_config\<lparr>SECRET := ''abc123''\<rparr>) \<and>
   headers_get (headers (post_with [(''Host'', ''ci''), (''authorization'', ''Basic abc123'')]))
       ''Authorization'' ''''
     \<noteq> ''Bearer '' @ SECRET (default_config\<lparr>SECRET := ''abc123''\<rparr>) \<and>
   headers_get (headers (post_with [(''Authorization'', ''Bearer abc124'')]))
       ''Authorization'' ''''
     \<noteq> ''Bearer '' @ SECRET (default_config\<lparr>SECRET := ''abc123''\<rparr>) \<and>
   statuses (do_POST (default_config\<lparr>SECRET := ''abc123''\<rparr>)
      (scripted_os (Inr True) (exit_with 0 '''') (exit_with 0 '''')) (post_with [])) = [401] \<and>
   external (do_POST (default_config\<lparr>SECRET := ''abc123''\<rparr>)
      (scripted_os (Inr True) (exit_with 0 '''') (exit_with 0 ''''))
      (post_with [(''Host'', ''ci''), (''authorization'', ''Basic abc123'')])) = [] \<and>
   written (do_POST (default_config\<lparr>SECRET := ''abc123''\<rparr>)
      (scripted_os (Inr True) (exit_with 0 '''') (exit_with 0 ''''))
      (post_with [(''Authorization'', ''Bearer abc124'')])) = ''Unauthorized''"
  using
    unauthorized_gets_401 [of "default_config\<lparr>SECRET := ''abc123''\<rparr>" "post_with []"
      "scripted_os (Inr True) (exit_with 0 '''') (exit_with 0 '''')"]
    unauthorized_gets_401 [of "default_config\<lparr>SECRET := ''abc123''\<rparr>"
      "post_with [(''Host'', ''ci''), (''authorization'', ''Basic abc123'')]"
      "scripted_os (Inr True) (exit_with 0 '''') (exit_with 0 '''')"]
    unauthorized_gets_401 [of "default_config\<lparr>SECRET := ''abc123''\<rparr>"
      "post_with [(''Authorization'', ''Bearer abc124'')]"
      "scripted_os (Inr True) (exit_with 0 '''') (exit_with 0 '''')"]
  by (simp add: default_config_def post_with_def lower_eval)

text \<open>
  Claim C6. With an empty secret every POST request is accepted: the trace does not
  depend on the headers, it is the info line followed by the events of \<open>deploy\<close> and a
  response, and the status 401 is never sent.
\<close>

theorem empty_secret_accepts_every_request:
  assumes "SECRET cfg = ''''"
  shows "authorized cfg req \<and>
         do_POST cfg w (req\<lparr>headers := hs\<rparr>) = do_POST cfg w req \<and>
         (\<exists>response. do_POST cfg w req =
            Log INFO (''Received deployment webhook from '' @ fst (client_address req)) #
            fst (deploy cfg w) @ response) \<and>
         401 \<notin> set (statuses (do_POST cfg w req))"
proof -
  have a: "authorized cfg r" for r
    using assms by (simp add: authorized_def)
  have "do_POST cfg w (req\<lparr>headers := hs\<rparr>) = do_POST cfg w req"
    using assms by (simp add: do_POST_def)
  moreover have "\<exists>response. do_POST cfg w req =
      Log INFO (''Received deployment webhook from '' @ fst (client_address req)) #
      fst (deploy cfg w) @ response"
    by (cases "deploy cfg w") (simp add: do_POST_authorized [OF a] split: sum.splits)
  moreover have "401 \<notin> set (statuses (fst (deploy cfg w)))"
    by (simp add: deploy_def Let_def split: sum.splits bool.splits)
  then have "401 \<notin> set (statuses (do_POST cfg w req))"
    by (cases "deploy cfg w")
       (simp add: do_POST_authorized [OF a] statuses_append split: sum.splits)
  ultimately show ?thesis using a by blast
qed

theorem empty_secret_accepts_every_request_witness:
  "SECRET default_config = '''' \<and>
   authorized default_config (post_with []) \<and>
   do_POST default_config (scripted_os (Inr True) (exit_with 0 '''') (exit_with 0 ''''))
      ((post_with [])\<lparr>headers := [(''Authorization'', ''Basic nonsense'')]\<rparr>)
     = do_POST default_config (scripted_os (Inr True) (exit_with 0 '''') (exit_with 0 ''''))
         (post_with []) \<and>
   401 \<notin> set (statuses (do_POST default_config
      (scripted_os (Inr True) (exit_with 0 '''') (exit_with 0 '''')) (post_with [])))"
  using empty_secret_accepts_every_request [of default_config "post_with []"
      "scripted_os (Inr True) (exit_with 0 '''') (exit_with 0 '''')"
      "[(''Authorization'', ''Basic nonsense'')]"]
  by (simp add: default_config_def)

text \<open>
  Claim C2. When the pull stage runs and exits with a non-zero code, \<open>deploy\<close> returns
  the pull result, the pull command is the only subprocess (the up command is not
  started), and the response is 500 with the body \<open>Deployment failed: \<close> followed by
  the captured stderr of the pull stage.
\<close>

theorem pull_failure_stops_deploy:
  assumes "authorized cfg req"
    and "path_exists w (compose_path cfg w) = Inr True"
    and "subprocess_run w (pull_args cfg (compose_path cfg w)) = Inr pull_result"
    and "returncode pull_result \<noteq> 0"
  shows "snd (deploy cfg w) = Inr pull_result \<and>
         runs (fst (deploy cfg w)) = [pull_args cfg (compose_path cfg w)] \<and>
         runs (do_POST cfg w req) = [pull_args cfg (compose_path cfg w)] \<and>
         up_args cfg (compose_path cfg w) \<notin> set (runs (do_POST cfg w req)) \<and>
         statuses (do_POST cfg w req) = [500] \<and>
         written (do_POST cfg w req) = ''Deployment failed: '' @ stderr pull_result"
  using assms(4) pull_up_differ [of cfg "compose_path cfg w"]
  by (simp add: do_POST_authorized [OF assms(1)] deploy_pull_fails [OF assms(2,3,4)])

theorem pull_failure_stops_deploy_witness:
  "authorized (default_config\<lparr>SECRET := ''abc123''\<rparr>)
     (post_with [(''Authorization'', ''Bearer abc123'')]) \<and>
   path_exists (scripted_os (Inr True) (exit_with 1 ''pull access denied'') (exit_with 0 ''''))
     (compose_path (default_config\<lparr>SECRET := ''abc123''\<rparr>)
        (scripted_os (Inr True) (exit_with 1 ''pull access denied'') (exit_with 0 ''''))) = Inr True \<and>
   subprocess_run (scripted_os (Inr True) (exit_with 1 ''pull access denied'') (exit_with 0 ''''))
     (pull_args (default_config\<lparr>SECRET := ''abc123''\<rparr>)
        (compose_path (default_config\<lparr>SECRET := ''abc123''\<rparr>)
           (scripted_os (Inr True) (exit_with 1 ''pull access denied'') (exit_with 0 ''''))))
     = Inr \<lparr>returncode = 1, stdout = '''', stderr = ''pull access denied''\<rparr> \<and>
   returncode \<lparr>returncode = 1, stdout = '''', stderr = ''pull access denied''\<rparr> \<noteq> 0 \<and>
   statuses (do_POST (default_config\<lparr>SECRET := ''abc123''\<rparr>)
      (scripted_os (Inr True) (exit_with 1 ''pull access denied'') (exit_with 0 ''''))
      (post_with [(''Authorization'', ''Bearer abc123'')])) = [500] \<and>
   written (do_POST (default_config\<lparr>SECRET := ''abc123''\<rparr>)
      (scripted_os (Inr True) (exit_with 1 ''pull access denied'') (exit_with 0 ''''))
      (post_with [(''Authorization'', ''Bearer abc123'')]))
     = ''Deployment failed: pull access denied'' \<and>
   runs (do_POST (default_config\<lparr>SECRET := ''abc123''\<rparr>)
      (scripted_os (Inr True) (exit_with 1 ''pull access denied'') (exit_with 0 ''''))
      (post_with [(''Authorization'', ''Bearer abc123'')]))
     = [\<lparr>args = [''docker'', ''compose'', ''-f'',
                 ''/opt/media-server/docker-compose.prod.yml'', ''pull''],
         capture_output = True, text_mode = True, cwd = ''/opt/media-server''\<rparr>]"
  using pull_failure_stops_deploy
    [of "default_config\<lparr>SECRET := ''abc123''\<rparr>"
        "post_with [(''Authorization'', ''Bearer abc123'')]"
        "scripted_os (Inr True) (exit_with 1 ''pull access denied'') (exit_with 0 '''')"
        "\<lparr>returncode = 1, stdout = '''', stderr = ''pull access denied''\<rparr>"]
  by (simp add: authorized_def fixture_eval lower_eval)

text \<open>
  Claim C3. An accepted request with the compose file present and both stages exiting
  with code 0 is answered with status 200 and the body \<open>Deployment successful\<close>.
\<close>

theorem both_stages_succeed_200:
  assumes "authorized cfg req"
    and "path_exists w (compose_path cfg w) = Inr True"
    and "subprocess_run w (pull_args cfg (compose_path cfg w)) = Inr pull_result"
    and "returncode pull_result = 0"
    and "subprocess_run w (up_args cfg (compose_path cfg w)) = Inr up_result"
    and "returncode up_result = 0"
  shows "statuses (do_POST cfg w req) = [200] \<and>
         written (do_POST cfg w req) = ''Deployment successful''"
  using assms(6)
  by (simp add: do_POST_authorized [OF assms(1)] deploy_up_returns [OF assms(2,3,4,5)])

theorem both_stages_succeed_200_witness:
  "authorized (default_config\<lparr>SECRET := ''abc123''\<rparr>)
     (post_with [(''Authorization'', ''Bearer abc123'')]) \<and>
   path_exists (scripted_os (Inr True) (exit_with 0 '''') (exit_with 0 ''''))
     (compose_path (default_config\<lparr>SECRET := ''abc123''\<rparr>)
        (scripted_os (Inr True) (exit_with 0 '''') (exit_with 0 ''''))) = Inr True \<and>
   subprocess_run (scripted_os (Inr True) (exit_with 0 '''') (exit_with 0 ''''))
     (pull_args (default_config\<lparr>SECRET := ''abc123''\<rparr>)
        (compose_path (default_config\<lparr>SECRET := ''abc123''\<rparr>)
           (scripted_os (Inr True) (exit_with 0 '''') (exit_with 0 ''''))))
     = Inr \<lparr>returncode = 0, stdout = '''', stderr = ''''\<rparr> \<and>
   subprocess_run (scripted_os (Inr True) (exit_with 0 '''') (exit_with 0 ''''))
     (up_args (default_config\<lparr>SECRET := ''abc123''\<rparr>)
        (compose_path (default_config\<lparr>SECRET := ''abc123''\<rparr>)
           (scripted_os (Inr True) (exit_with 0 '''') (exit_with 0 ''''))))
     = Inr \<lparr>returncode = 0, stdout = '''', stderr = ''''\<rparr> \<and>
   returncode \<lparr>returncode = 0, stdout = '''', stderr = ''''\<rparr> = 0 \<and>
   statuses (do_POST (default_config\<lparr>SECRET := ''abc123''\<rparr>)
      (scripted_os (Inr True) (exit_with 0 '''') (exit_with 0 ''''))
      (post_with [(''Authorization'', ''Bearer abc123'')])) = [200] \<and>
   written (do_POST (default_config\<lparr>SECRET := ''abc123''\<rparr>)
      (scripted_os (Inr True) (exit_with 0 '''') (exit_with 0 ''''))
      (post_with [(''Authorization'', ''Bearer abc123'')])) = ''Deployment successful''"
  using both_stages_succeed_200
    [of "default_config\<lparr>SECRET := ''abc123''\<rparr>"
        "post_with [(''Authorization'', ''Bearer abc123'')]"
        "scripted_os (Inr True) (exit_with 0 '''') (exit_with 0 '''')"
        "\<lparr>returncode = 0, stdout = '''', stderr = ''''\<rparr>"
        "\<lparr>returncode = 0, stdout = '''', stderr = ''''\<rparr>"]
  by (simp add: authorized_def fixture_eval lower_eval)

text \<open>
  Claim C4. When the pull stage exits with 0 and the up stage with a non-zero code, the
  response is 500, its body is \<open>Deployment failed: \<close> followed by the stderr of the up
  stage (so it contains it), and the pull command was started exactly once.
\<close>

theorem up_failure_500:
  assumes "authorized cfg req"
    and "path_exists w (compose_path cfg w) = Inr True"
    and "subprocess_run w (pull_args cfg (compose_path cfg w)) = Inr pull_result"
    and "returncode pull_result = 0"
    and "subprocess_run w (up_args cfg (compose_path cfg w)) = Inr up_result"
    and "returncode up_result \<noteq> 0"
  shows "snd (deploy cfg w) = Inr up_result \<and>
         statuses (do_POST cfg w req) = [500] \<and>
         written (do_POST cfg w req) = ''Deployment failed: '' @ stderr up_result \<and>
         sublist (stderr up_result) (written (do_POST cfg w req)) \<and>
         runs (do_POST cfg w req) =
           [pull_args cfg (compose_path cfg w), up_args cfg (compose_path cfg w)] \<and>
         count_list (runs (do_POST cfg w req)) (pull_args cfg (compose_path cfg w)) = 1"
proof -
  have body: "written (do_POST cfg w req) = ''Deployment failed: '' @ stderr up_result"
    using assms(6)
    by (simp add: do_POST_authorized [OF assms(1)] deploy_up_returns [OF assms(2,3,4,5)])
  have "sublist (stderr up_result) (''Deployment failed: '' @ stderr up_result)"
    by (rule sublist_append_leftI)
  then have "sublist (stderr up_result) (written (do_POST cfg w req))"
    by (simp only: body)
  moreover have "snd (deploy cfg w) = Inr up_result \<and>
      statuses (do_POST cfg w req) = [500] \<and>
      runs (do_POST cfg w req) =
        [pull_args cfg (compose_path cfg w), up_args cfg (compose_path cfg w)] \<and>
      count_list (runs (do_POST cfg w req)) (pull_args cfg (compose_path cfg w)) = 1"
    using assms(6) pull_up_differ [of cfg "compose_path cfg w"]
    by (simp add: do_POST_authorized [OF assms(1)] deploy_up_returns [OF assms(2,3,4,5)])
  ultimately show ?thesis using body by blast
qed

theorem up_failure_500_witness:
  "authorized default_config (post_with []) \<and>
   path_exists (scripted_os (Inr True) (exit_with 0 '''') (exit_with 125 ''port is already allocated''))
     (compose_path default_config
        (scripted_os (Inr True) (exit_with 0 '''') (exit_with 125 ''port is already allocated'')))
     = Inr True \<and>
   subprocess_run (scripted_os (Inr True) (exit_with 0 '''') (exit_with 125 ''port is already allocated''))
     (pull_args default_config
        (compose_path default_config
           (scripted_os (Inr True) (exit_with 0 '''') (exit_with 125 ''port is already allocated''))))
     = Inr \<lparr>returncode = 0, stdout = '''', stderr = ''''\<rparr> \<and>
   subprocess_run (scripted_os (Inr True) (exit_with 0 '''') (exit_with 125 ''port is already allocated''))
     (up_args default_config
        (compose_path default_config
           (scripted_os (Inr True) (exit_with 0 '''') (exit_with 125 ''port is already allocated''))))
     = Inr \<lparr>returncode = 125, stdout = '''', stderr = ''port is already allocated''\<rparr> \<and>
   returncode \<lparr>returncode = 125, stdout = '''', stderr = ''port is already allocated''\<rparr> \<noteq> 0 \<and>
   statuses (do_POST default_config
      (scripted_os (Inr True) (exit_with 0 '''') (exit_with 125 ''port is already allocated''))
      (post_with [])) = [500] \<and>
   written (do_POST default_config
      (scripted_os (Inr True) (exit_with 0 '''') (exit_with 125 ''port is already allocated''))
      (post_with [])) = ''Deployment failed: port is already allocated''"
  using up_failure_500
    [of default_config "post_with []"
        "scripted_os (Inr True) (exit_with 0 '''') (exit_with 125 ''port is already allocated'')"
        "\<lparr>returncode = 0, stdout = '''', stderr = ''''\<rparr>"
        "\<lparr>returncode = 125, stdout = '''', stderr = ''port is already allocated''\<rparr>"]
  by (simp add: authorized_def fixture_eval lower_eval)

text \<open>
  Claim C5. When the compose file does not exist, \<open>deploy\<close> raises
  \<open>FileNotFoundError\<close> without starting a subprocess, and the handler answers 500 with
  the body \<open>Error: \<close> followed by the message of the exception, which contains
  \<open>not found\<close>.
\<close>

theorem missing_compose_file_500:
  assumes "authorized cfg req"
    and "path_exists w (compose_path cfg w) = Inr False"
  shows "snd (deploy cfg w) =
           Inl (FileNotFoundError (''Compose file not found: '' @ compose_path cfg w)) \<and>
         runs (fst (deploy cfg w)) = [] \<and>
         runs (do_POST cfg w req) = [] \<and>
         statuses (do_POST cfg w req) = [500] \<and>
         written (do_POST cfg w req) =
           ''Error: '' @ ''Compose file not found: '' @ compose_path cfg w \<and>
         sublist ''not found'' (''Compose file not found: '' @ compose_path cfg w)"
proof -
  have "''Compose file not found: '' @ compose_path cfg w =
        ''Compose file '' @ ''not found'' @ ('': '' @ compose_path cfg w)"
    by simp
  then have "sublist ''not found'' (''Compose file not found: '' @ compose_path cfg w)"
    by (simp only: sublist_appendI)
  moreover have "snd (deploy cfg w) =
           Inl (FileNotFoundError (''Compose file not found: '' @ compose_path cfg w)) \<and>
         runs (fst (deploy cfg w)) = [] \<and>
         runs (do_POST cfg w req) = [] \<and>
         statuses (do_POST cfg w req) = [500] \<and>
         written (do_POST cfg w req) =
           ''Error: '' @ ''Compose file not found: '' @ compose_path cfg w"
    by (simp add: do_POST_authorized [OF assms(1)] deploy_missing [OF assms(2)])
  ultimately show ?thesis by blast
qed

theorem missing_compose_file_500_witness:
  "authorized default_config (post_with []) \<and>
   path_exists (scripted_os (Inr False) (exit_with 0 '''') (exit_with 0 ''''))
     (compose_path default_config (scripted_os (Inr False) (exit_with 0 '''') (exit_with 0 '''')))
     = Inr False \<and>
   runs (do_POST default_config (scripted_os (Inr False) (exit_with 0 '''') (exit_with 0 ''''))
      (post_with [])) = [] \<and>
   statuses (do_POST default_config (scripted_os (Inr False) (exit_with 0 '''') (exit_with 0 ''''))
      (post_with [])) = [500] \<and>
   written (do_POST default_config (scripted_os (Inr False) (exit_with 0 '''') (exit_with 0 ''''))
      (post_with []))
     = ''Error: Compose file not found: /opt/media-server/docker-compose.prod.yml''"
  using missing_compose_file_500 [of default_config "post_with []"
      "scripted_os (Inr False) (exit_with 0 '''') (exit_with 0 '''')"]
  by (simp add: authorized_def fixture_eval)

text \<open>The outcome of deploy is a completed process with exit code 0 only on the path
  through both stages.\<close>

lemma deploy_success_cases:
  assumes "snd (deploy cfg w) = Inr r" and "returncode r = 0"
  shows "fst (deploy cfg w) =
           [Exists (compose_path cfg w), Log INFO ''Pulling latest image...'',
            Run (pull_args cfg (compose_path cfg w)), Log INFO ''Restarting container...'',
            Run (up_args cfg (compose_path cfg w))]"
  using assms
  by (auto simp: deploy_def Let_def split: sum.splits bool.splits if_splits)

text \<open>
  Claim C7. A deploy that returns a completed process with exit code 0 has started
  exactly two subprocesses, in this order: \<open>docker compose -f p pull\<close> and
  \<open>docker compose -f p up -d --remove-orphans\<close>, both with \<open>capture_output\<close> and
  \<open>text\<close> set and with the working directory \<open>COMPOSE_DIR\<close>, where \<open>p\<close> is the join
  of \<open>COMPOSE_DIR\<close> and \<open>COMPOSE_FILE\<close>. The exit code is an integer by the type of
  \<open>returncode\<close>.
\<close>

theorem successful_deploy_runs_pull_then_up:
  assumes "snd (deploy cfg w) = Inr r" and "returncode r = 0"
  shows "runs (fst (deploy cfg w)) =
           [\<lparr>args = [''docker'', ''compose'', ''-f'',
                     path_join w (COMPOSE_DIR cfg) (COMPOSE_FILE cfg), ''pull''],
             capture_output = True, text_mode = True, cwd = COMPOSE_DIR cfg\<rparr>,
            \<lparr>args = [''docker'', ''compose'', ''-f'',
                     path_join w (COMPOSE_DIR cfg) (COMPOSE_FILE cfg), ''up'', ''-d'',
                     ''--remove-orphans''],
             capture_output = True, text_mode = True, cwd = COMPOSE_DIR cfg\<rparr>]"
  by (simp add: deploy_success_cases [OF assms] pull_args_def up_args_def compose_path_def)

theorem successful_deploy_runs_pull_then_up_witness:
  "snd (deploy (default_config\<lparr>SECRET := ''abc123''\<rparr>)
      (scripted_os (Inr True) (exit_with 0 '''') (exit_with 0 '''')))
     = Inr \<lparr>returncode = 0, stdout = '''', stderr = ''''\<rparr> \<and>
   returncode \<lparr>returncode = 0, stdout = '''', stderr = ''''\<rparr> = 0 \<and>
   runs (fst (deploy (default_config\<lparr>SECRET := ''abc123''\<rparr>)
      (scripted_os (Inr True) (exit_with 0 '''') (exit_with 0 ''''))))
     = [\<lparr>args = [''docker'', ''compose'', ''-f'',
                 ''/opt/media-server/docker-compose.prod.yml'', ''pull''],
         capture_output = True, text_mode = True, cwd = ''/opt/media-server''\<rparr>,
        \<lparr>args = [''docker'', ''compose'', ''-f'',
                 ''/opt/media-server/docker-compose.prod.yml'', ''up'', ''-d'',
                 ''--remove-orphans''],
         capture_output = True, text_mode = True, cwd = ''/opt/media-server''\<rparr>]"
  using successful_deploy_runs_pull_then_up
    [of "default_config\<lparr>SECRET := ''abc123''\<rparr>"
        "scripted_os (Inr True) (exit_with 0 '''') (exit_with 0 '''')"
        "\<lparr>returncode = 0, stdout = '''', stderr = ''''\<rparr>"]
  by (simp add: deploy_def Let_def fixture_eval)

lemma runs_deploy_prefix:
  "prefix (runs (fst (deploy cfg w)))
     [pull_args cfg (compose_path cfg w), up_args cfg (compose_path cfg w)]"
  by (simp add: deploy_def Let_def split: sum.splits bool.splits)

text \<open>
  Claim C9. Two accepted requests handled under the same configuration, in the same
  outside world, start the same subprocesses and make the same existence test, whatever
  their paths, bodies and headers are: the commands are those of \<open>deploy\<close>, which does
  not take the request. In any outside world the commands started are an initial part of
  the pull command and the up command built from \<open>COMPOSE_DIR\<close> and \<open>COMPOSE_FILE\<close>.
\<close>

theorem commands_do_not_depend_on_request:
  assumes "authorized cfg r1" and "authorized cfg r2"
  shows "runs (do_POST cfg w r1) = runs (do_POST cfg w r2) \<and>
         external (do_POST cfg w r1) = external (do_POST cfg w r2) \<and>
         runs (do_POST cfg w r1) = runs (fst (deploy cfg w)) \<and>
         prefix (runs (do_POST cfg w r1))
           [pull_args cfg (path_join w (COMPOSE_DIR cfg) (COMPOSE_FILE cfg)),
            up_args cfg (path_join w (COMPOSE_DIR cfg) (COMPOSE_FILE cfg))]"
  using runs_deploy_prefix [of cfg w]
  by (simp add: runs_do_POST_authorized assms external_do_POST_authorized compose_path_def)

theorem commands_do_not_depend_on_request_witness:
  "authorized (default_config\<lparr>SECRET := ''abc123''\<rparr>)
     \<lparr>headers = [(''Authorization'', ''Bearer abc123'')], path = ''/'', body = '''',
      client_address = (''10.0.0.1'', 5555)\<rparr> \<and>
   authorized (default_config\<lparr>SECRET := ''abc123''\<rparr>)
     \<lparr>headers = [(''X-Run'', ''rm -rf /''), (''authorization'', ''Bearer abc123'')],
      path = ''/deploy?file=/etc/passwd'', body = ''up --build; reboot'',
      client_address = (''192.168.7.9'', 40000)\<rparr> \<and>
   runs (do_POST (default_config\<lparr>SECRET := ''abc123''\<rparr>)
      (scripted_os (Inr True) (exit_with 0 '''') (exit_with 0 ''''))
      \<lparr>headers = [(''Authorization'', ''Bearer abc123'')], path = ''/'', body = '''',
       client_address = (''10.0.0.1'', 5555)\<rparr>)
     = runs (do_POST (default_config\<lparr>SECRET := ''abc123''\<rparr>)
        (scripted_os (Inr True) (exit_with 0 '''') (exit_with 0 ''''))
        \<lparr>headers = [(''X-Run'', ''rm -rf /''), (''authorization'', ''Bearer abc123'')],
         path = ''/deploy?file=/etc/passwd'', body = ''up --build; reboot'',
         client_address = (''192.168.7.9'', 40000)\<rparr>)"
  using commands_do_not_depend_on_request
    [of "default_config\<lparr>SECRET := ''abc123''\<rparr>"
        "\<lparr>headers = [(''Authorization'', ''Bearer abc123'')], path = ''/'', body = '''',
          client_address = (''10.0.0.1'', 5555)\<rparr>"
        "\<lparr>headers = [(''X-Run'', ''rm -rf /''), (''authorization'', ''Bearer abc123'')],
          path = ''/deploy?file=/etc/passwd'', body = ''up --build; reboot'',
          client_address = (''192.168.7.9'', 40000)\<rparr>"
        "scripted_os (Inr True) (exit_with 0 '''') (exit_with 0 '''')"]
  by (simp add: authorized_def default_config_def lower_eval)

lemma external_do_POST_cases:
  "external (do_POST cfg w req) = [] \<and> \<not> authorized cfg req
   \<or> external (do_POST cfg w req) = external (fst (deploy cfg w)) \<and> authorized cfg req"
  by (cases "authorized cfg req")
     (simp_all add: external_do_POST_authorized do_POST_unauthorized)

text \<open>
  Claim C10. Any request starts at most two subprocesses; a subprocess is started only
  after the existence test, and only when that test answered true; the up command is
  started only after the pull command, and only when the pull command returned exit
  code 0. The calls that reach outside the process are, in order, one of: none; the
  existence test; the test and pull; the test, pull and up.
\<close>

theorem pull_precedes_up_invariant:
  "length (runs (do_POST cfg w req)) \<le> 2 \<and>
   (runs (do_POST cfg w req) \<noteq> [] \<longrightarrow>
      path_exists w (compose_path cfg w) = Inr True \<and>
      (\<exists>rest. external (do_POST cfg w req) = Exists (compose_path cfg w) # rest)) \<and>
   (up_args cfg (compose_path cfg w) \<in> set (runs (do_POST cfg w req)) \<longrightarrow>
      runs (do_POST cfg w req) =
        [pull_args cfg (compose_path cfg w), up_args cfg (compose_path cfg w)] \<and>
      (\<exists>r. subprocess_run w (pull_args cfg (compose_path cfg w)) = Inr r \<and>
           returncode r = 0)) \<and>
   external (do_POST cfg w req) \<in>
     {[], [Exists (compose_path cfg w)],
      [Exists (compose_path cfg w), Run (pull_args cfg (compose_path cfg w))],
      [Exists (compose_path cfg w), Run (pull_args cfg (compose_path cfg w)),
       Run (up_args cfg (compose_path cfg w))]}"
proof -
  have r: "runs (do_POST cfg w req) = runs (external (do_POST cfg w req))"
    by (simp add: runs_external)
  show ?thesis
    unfolding r
    using external_do_POST_cases [of cfg w req] external_deploy_cases [of cfg w]
      pull_up_differ [of cfg "compose_path cfg w"]
    by (elim disjE conjE) simp_all
qed

theorem pull_precedes_up_invariant_witness:
  "runs (do_POST default_config (scripted_os (Inr True) (exit_with 0 '''') (exit_with 0 ''''))
      (post_with [])) \<noteq> [] \<and>
   up_args default_config
      (compose_path default_config (scripted_os (Inr True) (exit_with 0 '''') (exit_with 0 '''')))
     \<in> set (runs (do_POST default_config
          (scripted_os (Inr True) (exit_with 0 '''') (exit_with 0 '''')) (post_with []))) \<and>
   path_exists (scripted_os (Inr True) (exit_with 0 '''') (exit_with 0 ''''))
      (compose_path default_config (scripted_os (Inr True) (exit_with 0 '''') (exit_with 0 '''')))
     = Inr True \<and>
   runs (do_POST default_config (scripted_os (Inr True) (exit_with 0 '''') (exit_with 0 ''''))
      (post_with []))
     = [pull_args default_config
          (compose_path default_config
             (scripted_os (Inr True) (exit_with 0 '''') (exit_with 0 ''''))),
        up_args default_config
          (compose_path default_config
             (scripted_os (Inr True) (exit_with 0 '''') (exit_with 0 '''')))] \<and>
   (\<exists>r. subprocess_run (scripted_os (Inr True) (exit_with 0 '''') (exit_with 0 ''''))
          (pull_args default_config
             (compose_path default_config
                (scripted_os (Inr True) (exit_with 0 '''') (exit_with 0 '''')))) = Inr r \<and>
        returncode r = 0)"
  using pull_precedes_up_invariant [of default_config
      "scripted_os (Inr True) (exit_with 0 '''') (exit_with 0 '''')" "post_with []"]
  by (simp add: do_POST_def deploy_def Let_def fixture_eval)

end
